theory Spec2Isabelle
  imports Complex_Main "HOL-Library.Log_Nat"
begin

section \<open>Data model\<close>

text \<open>
  The TypeScript unions \<open>'USDC' | 'USDT'\<close>, \<open>'avalanche' | 'sonic'\<close>,
  \<open>'avalanche-to-sonic' | 'sonic-to-avalanche'\<close>, the step kinds and the step statuses
  are datatypes; \<open>bigint\<close> is \<open>int\<close>; a transaction hash is a string.
\<close>

datatype Token = USDC | USDT

datatype Network = Avalanche | Sonic

datatype Direction = AvalancheToSonic | SonicToAvalanche

datatype StepType = SwapStep | BridgeStep | WaitStep

datatype StepStatus = Pending | Executing | Completed | Failed

datatype Provider = DeBridge | CCIP | Simulation

type_synonym Hash = string

text \<open>
  The errors the modelled code throws. \<open>ArbitrageError message code\<close>,
  \<open>SwapError message\<close>, \<open>BridgeError message\<close>, a plain \<open>Error message\<close>, and the
  \<open>RangeError\<close> of \<open>BigInt(x)\<close> on a number that is not an integer. The free-form
  context objects of the source's errors are left out.
\<close>

datatype JsError =
    ArbitrageError string string
  | SwapError string
  | BridgeError string
  | Error string
  | RangeError

record ExecutionStep =
  step_type :: StepType
  network :: Network
  description :: string
  status :: StepStatus
  txHash :: "Hash option"
  actualGas :: "int option"

record ExecutionPlan =
  steps :: "ExecutionStep list"
  totalGasCost :: int
  totalBridgeCost :: int
  estimatedDuration :: int
  expectedProfit :: int

record PoolRef =
  price :: int

record ArbitrageOpportunity =
  opp_id :: string
  direction :: Direction
  buyPool :: PoolRef
  sellPool :: PoolRef
  amount :: int
  estimatedGasCost :: int
  grossProfit :: int
  netProfit :: int

section \<open>JavaScript numbers\<close>

text \<open>
  A JavaScript \<open>number\<close> is an IEEE 754 binary64 value. \<open>Fin m e\<close> stands for the finite
  value \<open>m * 2 ^ e\<close>; the other constructors are the two infinities and NaN. Every
  arithmetic operation computes the exact result and rounds it to 53 significant bits, ties
  to even, with gradual underflow below \<open>2 ^ - 1022\<close> and overflow to infinity from
  \<open>2 ^ 1024\<close>, as the standard prescribes. The sign of zero is not represented: none of
  the modelled expressions can tell \<open>- 0\<close> from \<open>0\<close>.
\<close>

datatype Double = Fin int int | PosInf | NegInf | NaN

definition shl :: "int \<Rightarrow> int \<Rightarrow> int" where
  "shl x k = x * 2 ^ nat k"

text \<open>The integer nearest to \<open>n / d\<close>, the even one of two equally near (\<open>0 \<le> n\<close>, \<open>0 < d\<close>).\<close>

definition roundHalfEven :: "int \<Rightarrow> int \<Rightarrow> int" where
  "roundHalfEven n d =
     (let q = n div d; r = n mod d
      in if 2 * r < d then q else if 2 * r > d then q + 1 else if even q then q else q + 1)"

text \<open>The binary exponent of \<open>n / d\<close>: the \<open>l\<close> with \<open>2 ^ l \<le> n / d < 2 ^ (l + 1)\<close>.\<close>

definition ilog2 :: "int \<Rightarrow> int \<Rightarrow> int" where
  "ilog2 n d = (let k = bitlen d - bitlen n in if shl n k \<ge> shl d (- k) then - k else - k - 1)"

text \<open>\<open>roundQ n d E\<close> rounds the exact value \<open>(n / d) * 2 ^ E\<close> (\<open>0 \<le> n\<close>, \<open>0 < d\<close>).\<close>

definition roundQ :: "int \<Rightarrow> int \<Rightarrow> int \<Rightarrow> Double" where
  "roundQ n d E =
     (if n = 0 then Fin 0 0
      else let t = max (- 1074) (ilog2 n d + E - 52);
               mant = roundHalfEven (shl n (E - t)) (shl d (t - E))
           in if t > 971 \<or> (t = 971 \<and> mant \<ge> 2 ^ 53) then PosInf else Fin mant t)"

definition dneg :: "Double \<Rightarrow> Double" where
  "dneg x = (case x of Fin m e \<Rightarrow> Fin (- m) e | PosInf \<Rightarrow> NegInf | NegInf \<Rightarrow> PosInf | NaN \<Rightarrow> NaN)"

definition fl :: "int \<Rightarrow> int \<Rightarrow> int \<Rightarrow> Double" where
  "fl n d E = (if n < 0 then dneg (roundQ (- n) d E) else roundQ n d E)"

text \<open>\<open>Number(x)\<close> of a bigint, and a decimal literal \<open>n / 10 ^ k\<close> such as \<open>0.0005\<close>.\<close>

definition Number :: "int \<Rightarrow> Double" where
  "Number x = fl x 1 0"

definition decimalLiteral :: "int \<Rightarrow> nat \<Rightarrow> Double" where
  "decimalLiteral n k = fl n (10 ^ k) 0"

definition dmul :: "Double \<Rightarrow> Double \<Rightarrow> Double" where
  "dmul a b = (case (a, b) of
      (Fin m1 e1, Fin m2 e2) \<Rightarrow> fl (m1 * m2) 1 (e1 + e2)
    | (NaN, _) \<Rightarrow> NaN | (_, NaN) \<Rightarrow> NaN
    | (Fin x _, PosInf) \<Rightarrow> (if x = 0 then NaN else if x > 0 then PosInf else NegInf)
    | (Fin x _, NegInf) \<Rightarrow> (if x = 0 then NaN else if x > 0 then NegInf else PosInf)
    | (PosInf, Fin y _) \<Rightarrow> (if y = 0 then NaN else if y > 0 then PosInf else NegInf)
    | (NegInf, Fin y _) \<Rightarrow> (if y = 0 then NaN else if y > 0 then NegInf else PosInf)
    | (PosInf, PosInf) \<Rightarrow> PosInf | (NegInf, NegInf) \<Rightarrow> PosInf
    | (PosInf, NegInf) \<Rightarrow> NegInf | (NegInf, PosInf) \<Rightarrow> NegInf)"

definition dadd :: "Double \<Rightarrow> Double \<Rightarrow> Double" where
  "dadd a b = (case (a, b) of
      (Fin m1 e1, Fin m2 e2) \<Rightarrow> (let e = min e1 e2 in fl (shl m1 (e1 - e) + shl m2 (e2 - e)) 1 e)
    | (NaN, _) \<Rightarrow> NaN | (_, NaN) \<Rightarrow> NaN
    | (Fin _ _, y) \<Rightarrow> y
    | (x, Fin _ _) \<Rightarrow> x
    | (PosInf, PosInf) \<Rightarrow> PosInf | (NegInf, NegInf) \<Rightarrow> NegInf
    | (PosInf, NegInf) \<Rightarrow> NaN | (NegInf, PosInf) \<Rightarrow> NaN)"

definition dsub :: "Double \<Rightarrow> Double \<Rightarrow> Double" where
  "dsub a b = dadd a (dneg b)"

definition ddiv :: "Double \<Rightarrow> Double \<Rightarrow> Double" where
  "ddiv a b = (case (a, b) of
      (Fin m1 e1, Fin m2 e2) \<Rightarrow>
        (if m2 = 0 then (if m1 = 0 then NaN else if m1 > 0 then PosInf else NegInf)
         else if m2 > 0 then fl m1 m2 (e1 - e2) else fl (- m1) (- m2) (e1 - e2))
    | (NaN, _) \<Rightarrow> NaN | (_, NaN) \<Rightarrow> NaN
    | (Fin _ _, _) \<Rightarrow> Fin 0 0
    | (PosInf, Fin y _) \<Rightarrow> (if y \<ge> 0 then PosInf else NegInf)
    | (NegInf, Fin y _) \<Rightarrow> (if y \<ge> 0 then NegInf else PosInf)
    | (_, _) \<Rightarrow> NaN)"

text \<open>\<open>a < b\<close> on numbers: false whenever an operand is NaN.\<close>

definition dless :: "Double \<Rightarrow> Double \<Rightarrow> bool" where
  "dless a b = (case (a, b) of
      (Fin m1 e1, Fin m2 e2) \<Rightarrow> (let e = min e1 e2 in shl m1 (e1 - e) < shl m2 (e2 - e))
    | (NaN, _) \<Rightarrow> False | (_, NaN) \<Rightarrow> False
    | (_, NegInf) \<Rightarrow> False | (PosInf, _) \<Rightarrow> False
    | (NegInf, _) \<Rightarrow> True | (_, PosInf) \<Rightarrow> True)"

definition dabs :: "Double \<Rightarrow> Double" where
  "dabs a = (case a of Fin m e \<Rightarrow> Fin (abs m) e | NegInf \<Rightarrow> PosInf | _ \<Rightarrow> a)"

text \<open>\<open>Math.min(a, b)\<close>: NaN when an operand is NaN.\<close>

definition dmin :: "Double \<Rightarrow> Double \<Rightarrow> Double" where
  "dmin a b = (if a = NaN \<or> b = NaN then NaN else if dless b a then b else a)"

definition dfloor :: "Double \<Rightarrow> Double" where
  "dfloor a =
     (case a of Fin m e \<Rightarrow> (if e \<ge> 0 then Fin m e else Fin (m div 2 ^ nat (- e)) 0) | _ \<Rightarrow> a)"

text \<open>\<open>BigInt(a)\<close> throws a RangeError unless \<open>a\<close> is a finite integer.\<close>

definition toBigInt :: "Double \<Rightarrow> JsError + int" where
  "toBigInt a =
     (case a of
        Fin m e \<Rightarrow>
          (if e \<ge> 0 then Inr (m * 2 ^ nat e)
           else if m mod 2 ^ nat (- e) = 0 then Inr (m div 2 ^ nat (- e))
           else Inl RangeError)
      | _ \<Rightarrow> Inl RangeError)"

section \<open>ArbitrageCalculator (utils/calculations.ts)\<close>

definition calculateNetProfit :: "int \<Rightarrow> int \<Rightarrow> int \<Rightarrow> int \<Rightarrow> int" where
  "calculateNetProfit gross gasCosts bridgeCosts slippageCosts =
     (let totalCosts = gasCosts + bridgeCosts + slippageCosts
      in if gross > totalCosts then gross - totalCosts else 0)"

text \<open>
  \<open>calculatePriceDifference(price1, price2, decimals)\<close>, a \<open>number\<close>:
  \<open>Math.abs(p1 - p2) / Math.min(p1, p2)\<close> with \<open>p = Number(price) / 10 ** decimals\<close>.
  (\<open>10 ** decimals\<close> is exact up to \<open>decimals = 22\<close>; the callers pass 6.)
\<close>

definition calculatePriceDifference :: "int \<Rightarrow> int \<Rightarrow> nat \<Rightarrow> Double" where
  "calculatePriceDifference price1 price2 decimals =
     (let p1 = ddiv (Number price1) (Number (10 ^ decimals));
          p2 = ddiv (Number price2) (Number (10 ^ decimals))
      in ddiv (dabs (dsub p1 p2)) (dmin p1 p2))"

section \<open>Swap venue adapters (pharaoh.ts, the Shadow service)\<close>

text \<open>
  \<open>PharaohDEXService\<close> and \<open>ShadowDEXService\<close> are the same code up to their constants
  (fee rate, gas estimate, network, messages), so one definition is indexed by the venue.
\<close>

datatype Dex = Pharaoh | Shadow

record SwapQuote =
  q_tokenIn :: Token
  q_tokenOut :: Token
  q_amountIn :: int
  amountOut :: int
  impact :: Double
  gasEstimate :: int
  q_network :: Network

definition dexName :: "Dex \<Rightarrow> string" where
  "dexName dex = (case dex of Pharaoh \<Rightarrow> ''Pharaoh'' | Shadow \<Rightarrow> ''Shadow'')"

definition feeRate :: "Dex \<Rightarrow> Double" where
  "feeRate dex = (case dex of Pharaoh \<Rightarrow> decimalLiteral 5 4 | Shadow \<Rightarrow> decimalLiteral 8 4)"

definition dexGasEstimate :: "Dex \<Rightarrow> int" where
  "dexGasEstimate dex = (case dex of Pharaoh \<Rightarrow> 872000 | Shadow \<Rightarrow> 85000)"

definition dexNetwork :: "Dex \<Rightarrow> Network" where
  "dexNetwork dex = (case dex of Pharaoh \<Rightarrow> Avalanche | Shadow \<Rightarrow> Sonic)"

text \<open>\<open>Math.min(Math.abs(1 - Number(amountOut) / Number(amountIn)) * 100, 1)\<close>.\<close>

definition calculatePriceImpact :: "int \<Rightarrow> int \<Rightarrow> Double" where
  "calculatePriceImpact amountIn amtOut =
     (let ratio = ddiv (Number amtOut) (Number amountIn);
          deviation = dabs (dsub (Number 1) ratio)
      in dmin (dmul deviation (Number 100)) (Number 1))"

text \<open>\<open>BigInt(Math.floor(Number(amountIn) * (1 - feeRate)))\<close>.\<close>

definition quoteAmountOut :: "Dex \<Rightarrow> int \<Rightarrow> JsError + int" where
  "quoteAmountOut dex amountIn =
     toBigInt (dfloor (dmul (Number amountIn) (dsub (Number 1) (feeRate dex))))"

definition getSwapQuoteExactIn :: "Dex \<Rightarrow> Token \<Rightarrow> Token \<Rightarrow> int \<Rightarrow> JsError + SwapQuote" where
  "getSwapQuoteExactIn dex tokenIn tokenOut amountIn =
     (case (if tokenIn = tokenOut then Inl (Error ''Cannot swap token for itself'')
            else case quoteAmountOut dex amountIn of
                   Inl e \<Rightarrow> Inl e
                 | Inr out \<Rightarrow>
                     Inr \<lparr>q_tokenIn = tokenIn, q_tokenOut = tokenOut, q_amountIn = amountIn,
                          amountOut = out, impact = calculatePriceImpact amountIn out,
                          gasEstimate = dexGasEstimate dex, q_network = dexNetwork dex\<rparr>) of
        Inl e \<Rightarrow> Inl (SwapError (''Failed to get '' @ dexName dex @ '' swap quote''))
      | Inr q \<Rightarrow> Inr q)"

text \<open>
  The chain client of a venue, as far as a swap uses it: the allowance read, the approval
  transaction with its confirmation, the signing of the swap payload, the submission of the
  swap and the wait for its receipt. Each may throw. A receipt carries the gas used and,
  in its logs, the amount the router really paid out.
\<close>

record Receipt =
  gasUsed :: int
  paidOut :: int

record ChainClient =
  allowance :: "Token \<Rightarrow> JsError + int"
  approve :: "Token \<Rightarrow> int \<Rightarrow> JsError + unit"
  signSwap :: "Token \<Rightarrow> Token \<Rightarrow> int \<Rightarrow> JsError + string"
  sendSwap :: "string \<Rightarrow> JsError + Hash"
  waitForTransactionReceipt :: "Hash \<Rightarrow> JsError + Receipt"

definition bindE :: "'e + 'a \<Rightarrow> ('a \<Rightarrow> 'e + 'b) \<Rightarrow> 'e + 'b" where
  "bindE m f = (case m of Inl e \<Rightarrow> Inl e | Inr x \<Rightarrow> f x)"

definition ensureTokenApproval :: "Dex \<Rightarrow> ChainClient \<Rightarrow> Token \<Rightarrow> int \<Rightarrow> JsError + unit" where
  "ensureTokenApproval dex client token amt =
     (case bindE (allowance client token)
             (\<lambda>a. if a \<ge> amt then Inr () else approve client token (amt * 2)) of
        Inl e \<Rightarrow>
          Inl (SwapError (case dex of
                 Pharaoh \<Rightarrow> ''Failed to approve token for Pharaoh Magpie Router''
               | Shadow \<Rightarrow> ''Failed to approve token for Magpie Router''))
      | Inr u \<Rightarrow> Inr u)"

record SwapExecution =
  se_txHash :: Hash
  se_amountOut :: int
  se_actualGasUsed :: int

definition executeSwapExactIn ::
  "Dex \<Rightarrow> ChainClient \<Rightarrow> Token \<Rightarrow> Token \<Rightarrow> int \<Rightarrow> JsError + SwapExecution" where
  "executeSwapExactIn dex client tokenIn tokenOut amountIn =
     (case bindE (ensureTokenApproval dex client tokenIn amountIn) (\<lambda>_.
           bindE (getSwapQuoteExactIn dex tokenIn tokenOut amountIn) (\<lambda>quote.
           bindE (signSwap client tokenIn tokenOut amountIn) (\<lambda>swapData.
           bindE (sendSwap client swapData) (\<lambda>h.
           bindE (waitForTransactionReceipt client h) (\<lambda>receipt.
             Inr \<lparr>se_txHash = h, se_amountOut = amountOut quote,
                  se_actualGasUsed = gasUsed receipt\<rparr>))))) of
        Inl e \<Rightarrow> Inl (SwapError (''Failed to execute '' @ dexName dex @ '' swap''))
      | Inr r \<Rightarrow> Inr r)"

section \<open>DEXManager (dexManager.ts)\<close>

text \<open>
  The manager holds one service object per venue. A service is the pair of functions its
  \<open>getSwapQuoteExactIn\<close> and \<open>executeSwapExactIn\<close> methods compute; \<open>dexService\<close> is
  the real service of a venue on its chain client.
\<close>

record DexService =
  svc_getSwapQuoteExactIn :: "Token \<Rightarrow> Token \<Rightarrow> int \<Rightarrow> JsError + SwapQuote"
  svc_executeSwapExactIn :: "Token \<Rightarrow> Token \<Rightarrow> int \<Rightarrow> JsError + SwapExecution"

definition dexService :: "Dex \<Rightarrow> ChainClient \<Rightarrow> DexService" where
  "dexService dex client =
     \<lparr>svc_getSwapQuoteExactIn = getSwapQuoteExactIn dex,
      svc_executeSwapExactIn = executeSwapExactIn dex client\<rparr>"

record DEXManager =
  pharaoh :: DexService
  shadow :: DexService

definition newDEXManager :: "ChainClient \<Rightarrow> ChainClient \<Rightarrow> DEXManager" where
  "newDEXManager avalancheClient sonicClient =
     \<lparr>pharaoh = dexService Pharaoh avalancheClient, shadow = dexService Shadow sonicClient\<rparr>"

record Quotes =
  quote_pharaoh :: "SwapQuote option"
  quote_shadow :: "SwapQuote option"

text \<open>\<open>try { quotes.x = await service.getSwapQuoteExactIn(...) } catch { warn }\<close>.\<close>

definition tryQuote :: "DexService \<Rightarrow> Token \<Rightarrow> Token \<Rightarrow> int \<Rightarrow> SwapQuote option" where
  "tryQuote service tokenIn tokenOut amountIn =
     (case svc_getSwapQuoteExactIn service tokenIn tokenOut amountIn of
        Inl e \<Rightarrow> None
      | Inr q \<Rightarrow> Some q)"

text \<open>
  Nothing outside the two inner \<open>try\<close> blocks throws, so the outer \<open>catch\<close> (which would
  rethrow a SwapError) is never entered.
\<close>

definition getAllQuotes ::
  "DEXManager \<Rightarrow> Token \<Rightarrow> Token \<Rightarrow> int \<Rightarrow> Network list option \<Rightarrow> JsError + Quotes" where
  "getAllQuotes mgr tokenIn tokenOut amountIn networks =
     (let targetNetworks = (case networks of None \<Rightarrow> [Avalanche, Sonic] | Some ns \<Rightarrow> ns);
          quotes = \<lparr>quote_pharaoh = None, quote_shadow = None\<rparr>;
          quotes = (if Avalanche \<in> set targetNetworks
                    then quotes\<lparr>quote_pharaoh := tryQuote (pharaoh mgr) tokenIn tokenOut amountIn\<rparr>
                    else quotes);
          quotes = (if Sonic \<in> set targetNetworks
                    then quotes\<lparr>quote_shadow := tryQuote (shadow mgr) tokenIn tokenOut amountIn\<rparr>
                    else quotes)
      in Inr quotes)"

record DEXSwapResult =
  sr_dex :: Dex
  sr_network :: Network
  sr_txHash :: Hash
  sr_amountIn :: int
  sr_amountOut :: int
  sr_actualGasUsed :: int
  sr_priceImpact :: Double

definition dexKey :: "Dex \<Rightarrow> string" where
  "dexKey dex = (case dex of Pharaoh \<Rightarrow> ''pharaoh'' | Shadow \<Rightarrow> ''shadow'')"

definition executeSwap ::
  "DEXManager \<Rightarrow> Dex \<Rightarrow> Token \<Rightarrow> Token \<Rightarrow> int \<Rightarrow> JsError + DEXSwapResult" where
  "executeSwap mgr dex tokenIn tokenOut amountIn =
     (let service = (case dex of Pharaoh \<Rightarrow> pharaoh mgr | Shadow \<Rightarrow> shadow mgr)
      in case bindE (svc_getSwapQuoteExactIn service tokenIn tokenOut amountIn) (\<lambda>quote.
              bindE (svc_executeSwapExactIn service tokenIn tokenOut amountIn) (\<lambda>result.
                Inr \<lparr>sr_dex = dex, sr_network = dexNetwork dex, sr_txHash = se_txHash result,
                     sr_amountIn = amountIn, sr_amountOut = se_amountOut result,
                     sr_actualGasUsed = se_actualGasUsed result,
                     sr_priceImpact = impact quote\<rparr>)) of
           Inl e \<Rightarrow> Inl (SwapError (''Failed to execute '' @ dexKey dex @ '' swap''))
         | Inr r \<Rightarrow> Inr r)"

section \<open>BridgeManager: provider strategy and cost estimate (bridgeManager.ts)\<close>

definition supportedChains :: "Provider \<Rightarrow> int list" where
  "supportedChains p = (case p of DeBridge \<Rightarrow> [43114, 146] | CCIP \<Rightarrow> [43114, 146] | Simulation \<Rightarrow> [])"

record BridgeStrategy =
  provider :: Provider
  available :: bool
  reason :: string

text \<open>
  \<open>getBestBridgeStrategy\<close>. (The reason given in the last case names the two chain ids
  in the source; the strings play no part in any decision.)
\<close>

definition getBestBridgeStrategy :: "Token \<Rightarrow> int \<Rightarrow> int \<Rightarrow> BridgeStrategy" where
  "getBestBridgeStrategy token fromChainId toChainId =
     (let debridgeAvailable =
            (fromChainId \<in> set (supportedChains DeBridge) \<and> toChainId \<in> set (supportedChains DeBridge));
          ccipAvailable =
            (fromChainId \<in> set (supportedChains CCIP) \<and> toChainId \<in> set (supportedChains CCIP))
      in if token = USDC \<and> ccipAvailable then
           \<lparr>provider = CCIP, available = True,
            reason = ''CCIP required for USDC per project specifications''\<rparr>
         else if token = USDT \<and> debridgeAvailable then
           \<lparr>provider = DeBridge, available = True,
            reason = ''DeBridge optimal for USDT - cheapest viable bridge''\<rparr>
         else if debridgeAvailable then
           \<lparr>provider = DeBridge, available = True, reason = ''DeBridge fallback''\<rparr>
         else if ccipAvailable then
           \<lparr>provider = CCIP, available = True, reason = ''CCIP fallback''\<rparr>
         else
           \<lparr>provider = Simulation, available = False, reason = ''No bridge supports this route''\<rparr>)"

record BridgeLeg =
  leg_provider :: Provider
  leg_cost :: int
  leg_token :: Token

record BridgeCosts =
  totalCost :: int
  firstBridge :: BridgeLeg
  secondBridge :: BridgeLeg

text \<open>
  \<open>estimateArbitrageBridgeCosts\<close>: nothing in the body of its \<open>try\<close> throws, so the
  conservative fallback of its \<open>catch\<close> is never taken and the function is total.
\<close>

definition estimateArbitrageBridgeCosts :: "Direction \<Rightarrow> BridgeCosts" where
  "estimateArbitrageBridgeCosts dir =
     (let (first, second) =
            (if dir = AvalancheToSonic then
               (\<lparr>leg_provider = provider (getBestBridgeStrategy USDT 43114 146),
                 leg_cost = 1 * 10 ^ 15, leg_token = USDT\<rparr>,
                \<lparr>leg_provider = provider (getBestBridgeStrategy USDC 146 43114),
                 leg_cost = 1 * 10 ^ 15, leg_token = USDC\<rparr>)
             else
               (\<lparr>leg_provider = provider (getBestBridgeStrategy USDC 43114 146),
                 leg_cost = 1 * 10 ^ 15, leg_token = USDC\<rparr>,
                \<lparr>leg_provider = provider (getBestBridgeStrategy USDT 146 43114),
                 leg_cost = 1 * 10 ^ 15, leg_token = USDT\<rparr>))
      in \<lparr>totalCost = leg_cost first + leg_cost second, firstBridge = first, secondBridge = second\<rparr>)"

section \<open>ArbitrageEngine: plan construction\<close>

text \<open>
  \<open>steps.push({type, network, description, status: 'pending'})\<close>: a new step has no
  transaction hash and no gas figure yet. The arrow of the source's descriptions is written
  \<open>->\<close> here.
\<close>

definition mkStep :: "StepType \<Rightarrow> Network \<Rightarrow> string \<Rightarrow> ExecutionStep" where
  "mkStep t n d =
     \<lparr>step_type = t, network = n, description = d, status = Pending,
      txHash = None, actualGas = None\<rparr>"

definition planSteps :: "Direction \<Rightarrow> ExecutionStep list" where
  "planSteps dir =
     (if dir = AvalancheToSonic then
        [mkStep SwapStep Avalanche ''Swap USDC -> USDT on Pharaoh'',
         mkStep BridgeStep Avalanche ''Bridge USDT from Avalanche to Sonic via DeBridge'',
         mkStep WaitStep Sonic ''Wait for USDT bridge completion on Sonic'',
         mkStep SwapStep Sonic ''Swap USDT -> USDC on Shadow'',
         mkStep BridgeStep Sonic ''Bridge USDC from Sonic to Avalanche via DeBridge'',
         mkStep WaitStep Avalanche ''Wait for USDC bridge completion on Avalanche'']
      else
        [mkStep BridgeStep Avalanche ''Bridge USDC from Avalanche to Sonic via DeBridge'',
         mkStep WaitStep Sonic ''Wait for USDC bridge completion on Sonic'',
         mkStep SwapStep Sonic ''Swap USDC -> USDT on Shadow'',
         mkStep BridgeStep Sonic ''Bridge USDT from Sonic to Avalanche via DeBridge'',
         mkStep WaitStep Avalanche ''Wait for USDT bridge completion on Avalanche'',
         mkStep SwapStep Avalanche ''Swap USDT -> USDC on Pharaoh''])"

definition createExecutionPlan :: "ArbitrageOpportunity \<Rightarrow> ExecutionPlan" where
  "createExecutionPlan opportunity =
     (let bridgeCosts = estimateArbitrageBridgeCosts (direction opportunity)
      in \<lparr>steps = planSteps (direction opportunity),
          totalGasCost = estimatedGasCost opportunity,
          totalBridgeCost = totalCost bridgeCosts,
          estimatedDuration = 360,
          expectedProfit = netProfit opportunity\<rparr>)"

section \<open>BigInt division\<close>

text \<open>\<open>a / b\<close> on bigints truncates toward zero and throws a RangeError when \<open>b = 0n\<close>.\<close>

definition tdiv :: "int \<Rightarrow> int \<Rightarrow> int" where
  "tdiv a b = sgn a * sgn b * (\<bar>a\<bar> div \<bar>b\<bar>)"

definition bigintDiv :: "int \<Rightarrow> int \<Rightarrow> JsError + int" where
  "bigintDiv a b = (if b = 0 then Inl RangeError else Inr (tdiv a b))"

section \<open>DeBridgeService.monitorBridgeTransaction (deBridge.ts)\<close>

text \<open>
  What one poll of the order-status endpoint can give: \<open>fetch\<close> (or the decoding of its
  body) throws, the response is not \<open>ok\<close>, or the body carries a status string. The
  remote service is a stream of polls, each with the time in milliseconds the request
  took; \<open>Date.now() - startTime\<close> is the time elapsed so far.
\<close>

datatype PollResponse = FetchFailed JsError | HttpNotOk | OrderStatus string

text \<open>
  The body of the loop's \<open>try\<close> up to the sleep: \<open>Inr (Some r)\<close> is \<open>return r\<close>,
  \<open>Inr None\<close> falls through to the sleep, \<open>Inl e\<close> is a throw, which the \<open>catch\<close> of
  the same \<open>try\<close> receives.
\<close>

definition pollBody :: "string \<Rightarrow> PollResponse \<Rightarrow> JsError + string option" where
  "pollBody orderId resp =
     (case resp of
        FetchFailed e \<Rightarrow> Inl e
      | HttpNotOk \<Rightarrow> Inr None
      | OrderStatus st \<Rightarrow>
          if st = ''OrderCompleted'' \<or> st = ''ClaimCompleted'' then Inr (Some ''completed'')
          else if st = ''Cancelled'' then Inl (Error (''DeBridge order cancelled: '' @ orderId))
          else Inr None)"

definition pollInterval :: nat where
  "pollInterval = 15000"

text \<open>
  One iteration of the \<open>while\<close> loop, \<open>try\<close> and \<open>catch\<close> together: \<open>Some r\<close> when
  the body returns \<open>r\<close>; \<open>None\<close> when the iteration ends in a sleep of the poll interval,
  which it does both when the body falls through to its own sleep and when the \<open>catch\<close>
  has logged a thrown error.
\<close>

definition pollOnce :: "string \<Rightarrow> PollResponse \<Rightarrow> string option" where
  "pollOnce orderId resp =
     (case pollBody orderId resp of
        Inr (Some r) \<Rightarrow> Some r
      | Inr None \<Rightarrow> None
      | Inl e \<Rightarrow> None)"

function monitorLoop ::
  "(nat \<Rightarrow> nat \<times> PollResponse) \<Rightarrow> string \<Rightarrow> int \<Rightarrow> nat \<Rightarrow> nat \<Rightarrow> JsError + string" where
  "monitorLoop polls orderId timeoutMs elapsed i =
     (if int elapsed < timeoutMs then
        (case pollOnce orderId (snd (polls i)) of
           Some r \<Rightarrow> Inr r
         | None \<Rightarrow>
             monitorLoop polls orderId timeoutMs (elapsed + fst (polls i) + pollInterval) (Suc i))
      else Inl (BridgeError ''DeBridge order monitoring timeout''))"
  by pat_completeness auto
termination
  by (relation "measure (\<lambda>(polls, orderId, timeoutMs, elapsed, i). nat (timeoutMs - int elapsed))")
     (auto simp: pollInterval_def)

definition monitorBridgeTransaction ::
  "(nat \<Rightarrow> nat \<times> PollResponse) \<Rightarrow> string \<Rightarrow> int \<Rightarrow> JsError + string" where
  "monitorBridgeTransaction polls orderId timeoutMs = monitorLoop polls orderId timeoutMs 0 0"

definition BRIDGE_TIMEOUT :: int where
  "BRIDGE_TIMEOUT = 300000"

section \<open>BridgeManager: execution (bridgeManager.ts)\<close>

text \<open>
  A monitoring promise, as the one who awaits it meets it: the value it settles with
  (\<open>Inr status\<close> when it resolves, \<open>Inl e\<close> when it rejects) and the delay, in
  milliseconds, of the timer it waits on before it settles. The simulation's promise waits
  on exactly one timer. The promises of the real providers wait on the network; only how
  they settle is described, and their \<open>timerDelay\<close> is \<open>None\<close>.
\<close>

record MonitoringPromise =
  timerDelay :: "Double option"
  settled :: "JsError + string"

record BridgeExecutionResult =
  b_provider :: Provider
  b_txHash :: Hash
  b_orderId :: "string option"
  b_messageId :: "string option"
  estimatedOutput :: int
  monitoringPromise :: MonitoringPromise

text \<open>
  \<open>simulateBridgeMonitoring\<close> computes \<open>bridgeTime = 60000 + Math.random() * 120000\<close>,
  awaits \<open>setTimeout(resolve, bridgeTime)\<close> and then resolves with status completed. The
  draw of \<open>Math.random()\<close> is a parameter.
\<close>

definition simulateBridgeMonitoring :: "Double \<Rightarrow> Token \<Rightarrow> int \<Rightarrow> MonitoringPromise" where
  "simulateBridgeMonitoring random token estOutput =
     (let bridgeTime = dadd (Number 60000) (dmul random (Number 120000))
      in \<lparr>timerDelay = Some bridgeTime, settled = Inr ''completed''\<rparr>)"

text \<open>
  The world a bridge or swap step meets: the two chain clients, the two real bridge
  providers (what their \<open>executeBridge\<close> gives and how their monitoring settles), the
  draw of \<open>Math.random()\<close> and the renderings of \<open>Date.now()\<close>.
\<close>

record BridgeSubmission =
  bs_txHash :: Hash
  bs_ref :: string
  bs_estimatedOutput :: int

record Env =
  avalancheClient :: ChainClient
  sonicClient :: ChainClient
  debridgeExecuteBridge :: "int \<Rightarrow> int \<Rightarrow> int \<Rightarrow> Token \<Rightarrow> JsError + BridgeSubmission"
  debridgePolls :: "string \<Rightarrow> nat \<Rightarrow> nat \<times> PollResponse"
  ccipExecuteBridge :: "int \<Rightarrow> int \<Rightarrow> int \<Rightarrow> JsError + BridgeSubmission"
  ccipMonitor :: "string \<Rightarrow> int \<Rightarrow> JsError + string"
  mathRandom :: Double
  dateNowHex :: string
  dateNowDec :: string

definition executeSimulationBridge :: "Env \<Rightarrow> Token \<Rightarrow> int \<Rightarrow> int \<Rightarrow> int \<Rightarrow> BridgeExecutionResult" where
  "executeSimulationBridge env token fromChainId toChainId amt =
     (let simulatedTxHash = ''0x'' @ replicate 56 (CHR ''0'') @ ''simulation'' @ dateNowHex env;
          slippageFee = tdiv amt 1000;
          estOutput = amt - slippageFee
      in \<lparr>b_provider = Simulation, b_txHash = simulatedTxHash,
          b_orderId = Some (''sim_'' @ dateNowDec env), b_messageId = None,
          estimatedOutput = estOutput,
          monitoringPromise = simulateBridgeMonitoring (mathRandom env) token estOutput\<rparr>)"

text \<open>
  \<open>executeBridge\<close> without a forced provider. Whatever the real provider throws is caught
  and answered by the simulation bridge, so the function itself never throws.
\<close>

definition executeBridge :: "bool \<Rightarrow> Env \<Rightarrow> Token \<Rightarrow> int \<Rightarrow> int \<Rightarrow> int \<Rightarrow> BridgeExecutionResult" where
  "executeBridge simulationMode env token fromChainId toChainId amt =
     (let strategy = getBestBridgeStrategy token fromChainId toChainId
      in case (if provider strategy = Simulation \<or> simulationMode then
                 Inr (executeSimulationBridge env token fromChainId toChainId amt)
               else if provider strategy = DeBridge then
                 bindE (debridgeExecuteBridge env fromChainId toChainId amt token) (\<lambda>result.
                   Inr \<lparr>b_provider = DeBridge, b_txHash = bs_txHash result,
                        b_orderId = Some (bs_ref result), b_messageId = None,
                        estimatedOutput = bs_estimatedOutput result,
                        monitoringPromise =
                          \<lparr>timerDelay = None,
                           settled =
                             monitorBridgeTransaction (debridgePolls env (bs_ref result))
                               (bs_ref result) BRIDGE_TIMEOUT\<rparr>\<rparr>)
               else if provider strategy = CCIP then
                 bindE (ccipExecuteBridge env fromChainId toChainId amt) (\<lambda>result.
                   Inr \<lparr>b_provider = CCIP, b_txHash = bs_txHash result,
                        b_orderId = None, b_messageId = Some (bs_ref result),
                        estimatedOutput = bs_estimatedOutput result,
                        monitoringPromise =
                          \<lparr>timerDelay = None,
                           settled = ccipMonitor env (bs_ref result) toChainId\<rparr>\<rparr>)
               else Inl (Error ''No valid bridge provider'')) of
           Inl e \<Rightarrow> executeSimulationBridge env token fromChainId toChainId amt
         | Inr r \<Rightarrow> r)"

section \<open>PriceMonitor.sqrtPriceX96ToPrice\<close>

text \<open>
  \<open>Math.pow(10, k)\<close>. For \<open>0 \<le> k \<le> 22\<close> the power is a number and the definition
  is exact; the callers pass decimals 6 and 6, so \<open>k\<close> is 0 and 6. For other \<open>k\<close> the
  definition takes the correctly rounded power, which an engine's \<open>Math.pow\<close> need not
  return, so there it is an idealisation.
\<close>

definition pow10 :: "int \<Rightarrow> Double" where
  "pow10 k = (if k \<ge> 0 then Number (10 ^ nat k) else fl 1 (10 ^ nat (- k)) 0)"

text \<open>The primary formula: \<open>BigInt(Math.floor((s / 2^96)^2 * 10^(d1 - d0) * 10^6))\<close>.\<close>

definition primaryV3Price :: "int \<Rightarrow> int \<Rightarrow> int \<Rightarrow> JsError + int" where
  "primaryV3Price sqrtPriceX96 decimals0 decimals1 =
     (let sqrtPriceFloat = ddiv (Number sqrtPriceX96) (Number (2 ^ 96));
          priceFloat = dmul sqrtPriceFloat sqrtPriceFloat;
          adjustedPriceFloat = dmul priceFloat (pow10 (decimals1 - decimals0));
          finalPrice = dmul adjustedPriceFloat (pow10 6)
      in toBigInt (dfloor finalPrice))"

definition alternativeV3PriceCalculation :: "int \<Rightarrow> int" where
  "alternativeV3PriceCalculation sqrtPriceX96 =
     (let Q96 = 2 ^ 96;
          sqrtPriceSquared = sqrtPriceX96 * sqrtPriceX96;
          Q192 = Q96 * Q96
      in case bindE (bigintDiv sqrtPriceSquared Q192) (\<lambda>priceRatio.
              if priceRatio = 0 then
                bindE (bigintDiv Q192 sqrtPriceSquared) (\<lambda>inversePriceRatio.
                  Inr (inversePriceRatio * 1000000))
              else Inr (priceRatio * 1000000)) of
           Inl e \<Rightarrow> 0
         | Inr v \<Rightarrow> v)"

definition sqrtPriceX96ToPrice :: "int \<Rightarrow> int \<Rightarrow> int \<Rightarrow> int" where
  "sqrtPriceX96ToPrice sqrtPriceX96 decimals0 decimals1 =
     (case (if sqrtPriceX96 = 0 then Inr 1000000
            else bindE (primaryV3Price sqrtPriceX96 decimals0 decimals1) (\<lambda>priceBigInt.
              let alternativePrice = alternativeV3PriceCalculation sqrtPriceX96
              in if (priceBigInt < 500000 \<or> priceBigInt > 2000000) \<and> alternativePrice > 0
                 then Inr alternativePrice
                 else if priceBigInt > 0 then Inr priceBigInt
                 else Inr 1000000)) of
        Inl e \<Rightarrow> 1000000
      | Inr v \<Rightarrow> v)"

section \<open>ArbitrageEngine: execution\<close>

record ArbitrageExecutionResult =
  opportunityId :: string
  success :: bool
  executionPlan :: ExecutionPlan
  completedSteps :: "ExecutionStep list"
  failedStep :: "ExecutionStep option"
  r_netProfit :: int
  r_totalGasCost :: int
  r_totalBridgeCost :: int
  executionTime :: int
  transactions :: "Hash list"
  r_error :: "JsError option"

text \<open>
  The engine's mutable state: the in-progress flag, the execution history, and the
  simulation mode of its bridge manager.
\<close>

record ArbitrageEngine =
  isExecuting :: bool
  executionHistory :: "ArbitrageExecutionResult list"
  simulationMode :: bool

text \<open>\<open>description.includes(w)\<close>: \<open>w\<close> occurs in the description as a contiguous run.\<close>

fun includesStr :: "string \<Rightarrow> string \<Rightarrow> bool" where
  "includesStr [] w = (w = [])"
| "includesStr (c # cs) w = (take (length w) (c # cs) = w \<or> includesStr cs w)"

definition executeBridgeStep :: "bool \<Rightarrow> Env \<Rightarrow> ExecutionStep \<Rightarrow> int \<Rightarrow> BridgeExecutionResult" where
  "executeBridgeStep simMode env step amt =
     (let fromChainId = (if network step = Avalanche then 43114 else 146);
          toChainId = (if network step = Avalanche then 146 else 43114);
          token = (if includesStr (description step) ''USDT'' then USDT else USDC)
      in executeBridge simMode env token fromChainId toChainId amt)"

definition executeSwapStep ::
  "Env \<Rightarrow> ExecutionStep \<Rightarrow> ArbitrageOpportunity \<Rightarrow> int \<Rightarrow> JsError + DEXSwapResult" where
  "executeSwapStep env step opportunity amt =
     (let mgr = newDEXManager (avalancheClient env) (sonicClient env);
          isAvalanche = (network step = Avalanche);
          dex = (if isAvalanche then Pharaoh else Shadow)
      in if direction opportunity = AvalancheToSonic then
           (if isAvalanche then executeSwap mgr dex USDC USDT amt
            else executeSwap mgr dex USDT USDC amt)
         else
           (if isAvalanche then executeSwap mgr dex USDT USDC amt
            else executeSwap mgr dex USDC USDT amt))"

text \<open>
  The loop of \<open>executePlan\<close>. Its state: the steps already visited (as the loop left them
  in \<open>plan.steps\<close>), the completed steps, the transactions, the gas cost and the amount
  held. \<open>stepBody\<close> is the inner \<open>try\<close> of one iteration up to the point where the step
  would be marked completed: it gives the step and the state as the body left them and the
  error it threw, if any. The world may answer each step differently: \<open>envs i\<close> is the
  world step \<open>i\<close> meets.
\<close>

record PlanState =
  visited :: "ExecutionStep list"
  ps_completedSteps :: "ExecutionStep list"
  ps_transactions :: "Hash list"
  actualGasCost :: int
  currentAmount :: int

definition stepBody ::
  "bool \<Rightarrow> Env \<Rightarrow> ArbitrageOpportunity \<Rightarrow> ExecutionStep \<Rightarrow> PlanState
     \<Rightarrow> ExecutionStep \<times> PlanState \<times> JsError option" where
  "stepBody simMode env opportunity step st =
     (case step_type step of
        SwapStep \<Rightarrow>
          (case executeSwapStep env step opportunity (currentAmount st) of
             Inl e \<Rightarrow> (step, st, Some e)
           | Inr swapResult \<Rightarrow>
               (step\<lparr>txHash := Some (sr_txHash swapResult),
                      actualGas := Some (sr_actualGasUsed swapResult)\<rparr>,
                st\<lparr>actualGasCost := actualGasCost st + sr_actualGasUsed swapResult * 20000000000,
                    ps_transactions := ps_transactions st @ [sr_txHash swapResult],
                    currentAmount := sr_amountOut swapResult\<rparr>,
                None))
      | BridgeStep \<Rightarrow>
          (let bridgeResult = executeBridgeStep simMode env step (currentAmount st);
               step' = step\<lparr>txHash := Some (b_txHash bridgeResult)\<rparr>;
               st' = st\<lparr>ps_transactions := ps_transactions st @ [b_txHash bridgeResult],
                        currentAmount := estimatedOutput bridgeResult\<rparr>
           in case settled (monitoringPromise bridgeResult) of
                Inl e \<Rightarrow> (step', st', Some e)
              | Inr r \<Rightarrow> (step', st', None))
      | WaitStep \<Rightarrow> (step, st, None))"

text \<open>
  \<open>Inl (step, st, rest, e)\<close>: the step failed with \<open>e\<close>, \<open>rest\<close> are the steps never
  reached. \<open>Inr st\<close>: every step completed.
\<close>

fun executeSteps ::
  "bool \<Rightarrow> (nat \<Rightarrow> Env) \<Rightarrow> ArbitrageOpportunity \<Rightarrow> nat \<Rightarrow> ExecutionStep list \<Rightarrow> PlanState
     \<Rightarrow> (ExecutionStep \<times> PlanState \<times> ExecutionStep list \<times> JsError) + PlanState" where
  "executeSteps simMode envs opportunity i [] st = Inr st"
| "executeSteps simMode envs opportunity i (step # rest) st =
     (case stepBody simMode (envs i) opportunity (step\<lparr>status := Executing\<rparr>) st of
        (step', st', Some stepError) \<Rightarrow> Inl (step'\<lparr>status := Failed\<rparr>, st', rest, stepError)
      | (step', st', None) \<Rightarrow>
          executeSteps simMode envs opportunity (Suc i) rest
            (st'\<lparr>visited := visited st' @ [step'\<lparr>status := Completed\<rparr>],
                 ps_completedSteps := ps_completedSteps st' @ [step'\<lparr>status := Completed\<rparr>]\<rparr>))"

definition executePlan ::
  "bool \<Rightarrow> (nat \<Rightarrow> Env) \<Rightarrow> ExecutionPlan \<Rightarrow> ArbitrageOpportunity \<Rightarrow> ArbitrageExecutionResult" where
  "executePlan simMode envs plan opportunity =
     (case executeSteps simMode envs opportunity 0 (steps plan)
             \<lparr>visited = [], ps_completedSteps = [], ps_transactions = [],
              actualGasCost = 0, currentAmount = amount opportunity\<rparr> of
        Inl (step, st, rest, stepError) \<Rightarrow>
          \<lparr>opportunityId = opp_id opportunity, success = False,
           executionPlan = plan\<lparr>steps := visited st @ [step] @ rest\<rparr>,
           completedSteps = ps_completedSteps st, failedStep = Some step,
           r_netProfit = 0, r_totalGasCost = actualGasCost st, r_totalBridgeCost = 0,
           executionTime = 0, transactions = ps_transactions st, r_error = Some stepError\<rparr>
      | Inr st \<Rightarrow>
          \<lparr>opportunityId = opp_id opportunity, success = True,
           executionPlan = plan\<lparr>steps := visited st\<rparr>,
           completedSteps = ps_completedSteps st, failedStep = None,
           r_netProfit = currentAmount st - amount opportunity - actualGasCost st,
           r_totalGasCost = actualGasCost st, r_totalBridgeCost = 0,
           executionTime = 0, transactions = ps_transactions st, r_error = None\<rparr>)"

text \<open>
  \<open>validateOpportunity\<close> re-quotes both venues through the engine's own manager (the two
  real services; a quote does not touch the chain) and compares the two price differences
  as numbers: it throws when \<open>currentPriceDiff < originalPriceDiff * 0.5\<close>.
\<close>

definition currentPriceDiff :: "Quotes \<Rightarrow> Double" where
  "currentPriceDiff currentQuotes =
     calculatePriceDifference
       (case quote_pharaoh currentQuotes of Some q \<Rightarrow> amountOut q | None \<Rightarrow> 0)
       (case quote_shadow currentQuotes of Some q \<Rightarrow> amountOut q | None \<Rightarrow> 0) 6"

definition originalPriceDiff :: "ArbitrageOpportunity \<Rightarrow> Double" where
  "originalPriceDiff opportunity =
     calculatePriceDifference (price (buyPool opportunity)) (price (sellPool opportunity)) 6"

definition validateOpportunity :: "DEXManager \<Rightarrow> ArbitrageOpportunity \<Rightarrow> JsError + unit" where
  "validateOpportunity mgr opportunity =
     bindE (getAllQuotes mgr USDC USDT (amount opportunity) None) (\<lambda>currentQuotes.
       if quote_pharaoh currentQuotes = None \<or> quote_shadow currentQuotes = None then
         Inl (ArbitrageError ''Current quotes not available'' ''QUOTES_UNAVAILABLE'')
       else if dless (currentPriceDiff currentQuotes)
                     (dmul (originalPriceDiff opportunity) (Fin 1 (- 1))) then
         Inl (ArbitrageError ''Price difference has decreased significantly''
                ''PRICE_MOVED_AGAINST_US'')
       else Inr ())"

text \<open>
  \<open>executeArbitrage\<close>. A throw is \<open>Inl\<close> in the first component; the second component is
  the engine afterwards. \<open>elapsed\<close> is what \<open>Date.now() - startTime\<close> gives when the
  result is built. The \<open>finally\<close> block clears the flag on both paths of the \<open>try\<close>.
\<close>

definition executeArbitrage ::
  "(nat \<Rightarrow> Env) \<Rightarrow> int \<Rightarrow> ArbitrageEngine \<Rightarrow> ArbitrageOpportunity
     \<Rightarrow> (JsError + ArbitrageExecutionResult) \<times> ArbitrageEngine" where
  "executeArbitrage envs elapsed engine opportunity =
     (if isExecuting engine then
        (Inl (ArbitrageError ''Arbitrage execution already in progress'' ''EXECUTION_IN_PROGRESS''),
         engine)
      else
        let engine = engine\<lparr>isExecuting := True\<rparr>;
            mgr = newDEXManager (avalancheClient (envs 0)) (sonicClient (envs 0))
        in case bindE (Inr (createExecutionPlan opportunity)) (\<lambda>executionPlan.
                bindE (validateOpportunity mgr opportunity) (\<lambda>_.
                  Inr ((executePlan (simulationMode engine) envs executionPlan opportunity)
                         \<lparr>executionTime := elapsed\<rparr>))) of
             Inr result \<Rightarrow>
               (Inr result,
                engine\<lparr>executionHistory := executionHistory engine @ [result],
                       isExecuting := False\<rparr>)
           | Inl e \<Rightarrow>
               (let result =
                      \<lparr>opportunityId = opp_id opportunity, success = False,
                       executionPlan = createExecutionPlan opportunity,
                       completedSteps = [], failedStep = None,
                       r_netProfit = 0, r_totalGasCost = 0, r_totalBridgeCost = 0,
                       executionTime = elapsed, transactions = [], r_error = Some e\<rparr>
                in (Inr result,
                    engine\<lparr>executionHistory := executionHistory engine @ [result],
                           isExecuting := False\<rparr>)))"

section \<open>Concrete inputs\<close>

text \<open>
  A chain client on which every call succeeds (the allowance is 0, so an approval is sent);
  its receipts report 81234 gas and a payout of 999137, which is not what the venues quote.
  \<open>revertingClient\<close> is the same client with the swap submission failing.
\<close>

definition exampleClient :: ChainClient where
  "exampleClient =
     \<lparr>allowance = (\<lambda>t. Inr 0), approve = (\<lambda>t a. Inr ()),
      signSwap = (\<lambda>t1 t2 a. Inr ''0xsigned''), sendSwap = (\<lambda>d. Inr ''0xswap''),
      waitForTransactionReceipt = (\<lambda>h. Inr \<lparr>gasUsed = 81234, paidOut = 999137\<rparr>)\<rparr>"

definition revertingClient :: ChainClient where
  "revertingClient = exampleClient\<lparr>sendSwap := (\<lambda>d. Inl (Error ''execution reverted''))\<rparr>"

definition exampleEnv :: Env where
  "exampleEnv =
     \<lparr>avalancheClient = exampleClient, sonicClient = exampleClient,
      debridgeExecuteBridge =
        (\<lambda>f t a tok. Inl (BridgeError ''Failed to execute DeBridge transaction'')),
      debridgePolls = (\<lambda>orderId i. (200, HttpNotOk)),
      ccipExecuteBridge = (\<lambda>f t a. Inl (BridgeError ''Failed to execute CCIP transaction'')),
      ccipMonitor = (\<lambda>m c. Inr ''completed''),
      mathRandom = Fin 1 (- 1), dateNowHex = ''18bcfe56800'', dateNowDec = ''1700000000000''\<rparr>"

text \<open>The same world with another draw of \<open>Math.random()\<close>.\<close>

definition drawEnv :: "Double \<Rightarrow> Env" where
  "drawEnv r = exampleEnv\<lparr>mathRandom := r\<rparr>"

definition exampleEnvs :: "nat \<Rightarrow> Env" where
  "exampleEnvs i = exampleEnv"

definition revertingEnvs :: "nat \<Rightarrow> Env" where
  "revertingEnvs i = exampleEnv\<lparr>avalancheClient := revertingClient\<rparr>"

definition idleEngine :: ArbitrageEngine where
  "idleEngine = \<lparr>isExecuting = False, executionHistory = [], simulationMode = True\<rparr>"

definition busyEngine :: ArbitrageEngine where
  "busyEngine = \<lparr>isExecuting = True, executionHistory = [], simulationMode = True\<rparr>"

text \<open>
  An opportunity observed at prices 0.974220 and 0.974805 for 1.95 USDC: the venues
  re-quote 1949025 and 1948440 for that amount, a difference that is exactly half of the
  observed one. And one observed at a spread of 1 percent for 1 USDC, where the re-quoted
  difference is about 0.03 percent.
\<close>

definition halfSpreadOpportunity :: ArbitrageOpportunity where
  "halfSpreadOpportunity =
     \<lparr>opp_id = ''arb_1'', direction = AvalancheToSonic, buyPool = \<lparr>price = 974220\<rparr>,
      sellPool = \<lparr>price = 974805\<rparr>, amount = 1950000, estimatedGasCost = 0,
      grossProfit = 1140, netProfit = 1140\<rparr>"

definition onePercentOpportunity :: ArbitrageOpportunity where
  "onePercentOpportunity =
     \<lparr>opp_id = ''arb_2'', direction = AvalancheToSonic, buyPool = \<lparr>price = 1000000\<rparr>,
      sellPool = \<lparr>price = 1010000\<rparr>, amount = 1000000, estimatedGasCost = 0,
      grossProfit = 10000, netProfit = 10000\<rparr>"

definition priceMovedError :: JsError where
  "priceMovedError =
     ArbitrageError ''Price difference has decreased significantly'' ''PRICE_MOVED_AGAINST_US''"

text \<open>
  Two order-status streams, each poll taking 200 ms: the order is reported cancelled once
  and completed afterwards; the order is reported cancelled for ever.
\<close>

definition cancelledThenCompleted :: "nat \<Rightarrow> nat \<times> PollResponse" where
  "cancelledThenCompleted i =
     (200, if i = 0 then OrderStatus ''Cancelled'' else OrderStatus ''OrderCompleted'')"

definition alwaysCancelled :: "nat \<Rightarrow> nat \<times> PollResponse" where
  "alwaysCancelled i = (200, OrderStatus ''Cancelled'')"

text \<open>A manager whose Pharaoh service throws on every call, next to the real Shadow service.\<close>

definition failingService :: DexService where
  "failingService =
     \<lparr>svc_getSwapQuoteExactIn =
        (\<lambda>tokenIn tokenOut amountIn. Inl (SwapError ''Failed to get Pharaoh swap quote'')),
      svc_executeSwapExactIn =
        (\<lambda>tokenIn tokenOut amountIn. Inl (SwapError ''Failed to execute Pharaoh swap''))\<rparr>"

definition oneVenueDownManager :: DEXManager where
  "oneVenueDownManager = \<lparr>pharaoh = failingService, shadow = dexService Shadow exampleClient\<rparr>"

definition shadowQuoteOfOneMillion :: SwapQuote where
  "shadowQuoteOfOneMillion =
     \<lparr>q_tokenIn = USDC, q_tokenOut = USDT, q_amountIn = 1000000, amountOut = 999200,
      impact = Fin 5764607523034400 (- 56), gasEstimate = 85000, q_network = Sonic\<rparr>"

definition pharaohQuoteOfOneMillion :: SwapQuote where
  "pharaohQuoteOfOneMillion =
     \<lparr>q_tokenIn = USDC, q_tokenOut = USDT, q_amountIn = 1000000, amountOut = 999500,
      impact = Fin 7205759403792000 (- 57), gasEstimate = 872000, q_network = Avalanche\<rparr>"

section \<open>Results\<close>

text \<open>
  C1. A call to \<open>executeArbitrage\<close> while the in-progress flag is set throws the
  ArbitrageError with code EXECUTION_IN_PROGRESS at once: no plan is built, no step runs,
  and the engine (flag, history, simulation mode) is left exactly as it was.
\<close>

theorem executeArbitrage_in_progress:
  "isExecuting engine \<Longrightarrow>
   executeArbitrage envs elapsed engine opportunity =
     (Inl (ArbitrageError ''Arbitrage execution already in progress'' ''EXECUTION_IN_PROGRESS''),
      engine)"
  by (simp add: executeArbitrage_def)

theorem executeArbitrage_in_progress_witness:
  "isExecuting busyEngine \<and>
   executeArbitrage exampleEnvs 0 busyEngine halfSpreadOpportunity =
     (Inl (ArbitrageError ''Arbitrage execution already in progress'' ''EXECUTION_IN_PROGRESS''),
      busyEngine)"
  using executeArbitrage_in_progress [of busyEngine exampleEnvs 0 halfSpreadOpportunity]
  by (simp add: busyEngine_def)

text \<open>
  C2. An admitted call to \<open>executeArbitrage\<close> returns a result (it does not throw),
  whatever the world does; when it returns the in-progress flag is false and the history is
  the old history with exactly that result appended.
\<close>

theorem executeArbitrage_releases_flag:
  "\<not> isExecuting engine \<Longrightarrow>
   \<exists>r engine'. executeArbitrage envs elapsed engine opportunity = (Inr r, engine')
     \<and> isExecuting engine' = False
     \<and> executionHistory engine' = executionHistory engine @ [r]
     \<and> simulationMode engine' = simulationMode engine"
  by (auto simp: executeArbitrage_def Let_def bindE_def split: sum.splits)

theorem executeArbitrage_releases_flag_witness:
  "\<not> isExecuting idleEngine \<and>
   (\<exists>r engine'. executeArbitrage exampleEnvs 0 idleEngine halfSpreadOpportunity = (Inr r, engine')
     \<and> isExecuting engine' = False
     \<and> executionHistory engine' = executionHistory idleEngine @ [r]
     \<and> simulationMode engine' = simulationMode idleEngine)"
  using executeArbitrage_releases_flag [of idleEngine exampleEnvs 0 halfSpreadOpportunity]
  by (simp add: idleEngine_def)

text \<open>
  The three exit paths of an admitted call are all taken by some input: the plan completes;
  a step fails (the swap submission reverts) and the failure is reported as a result; the
  re-validation throws and the \<open>catch\<close> block builds the result.
\<close>

lemma executeArbitrage_exit_paths:
  "map_sum id (\<lambda>r. (success r, failedStep r = None, r_error r))
     (fst (executeArbitrage exampleEnvs 0 idleEngine halfSpreadOpportunity))
     = Inr (True, True, None)"
  "map_sum id (\<lambda>r. (success r, map_option step_type (failedStep r), r_error r))
     (fst (executeArbitrage revertingEnvs 0 idleEngine halfSpreadOpportunity))
     = Inr (False, Some SwapStep, Some (SwapError ''Failed to execute pharaoh swap''))"
  "map_sum id (\<lambda>r. (success r, failedStep r = None, r_error r))
     (fst (executeArbitrage exampleEnvs 0 idleEngine onePercentOpportunity))
     = Inr (False, True, Some priceMovedError)"
  by code_simp+

text \<open>
  C3, as stated, fails: the comparison in \<open>validateOpportunity\<close> is strict. For
  \<open>halfSpreadOpportunity\<close> the re-quoted difference, as the code computes it, is exactly
  half of the observed one (so it is less than or equal to half), yet the execution is not
  aborted: all six steps run and the result is a success without an error.
\<close>

theorem validateOpportunity_half_counterexample:
  "map_sum id (\<lambda>q. (map_option amountOut (quote_pharaoh q), map_option amountOut (quote_shadow q)))
     (getAllQuotes (newDEXManager exampleClient exampleClient) USDC USDT
        (amount halfSpreadOpportunity) None) = Inr (Some 1949025, Some 1948440)
   \<and> calculatePriceDifference 1949025 1948440 6
       = dmul (originalPriceDiff halfSpreadOpportunity) (Fin 1 (- 1))
   \<and> originalPriceDiff halfSpreadOpportunity = Fin 5538453985301653 (- 63)
   \<and> map_sum id (\<lambda>r. (success r, r_error r, length (completedSteps r)))
       (fst (executeArbitrage exampleEnvs 0 idleEngine halfSpreadOpportunity))
       = Inr (True, None, 6)"
  by code_simp

text \<open>
  C3, amended. If both venues re-quote and the re-quoted price difference is strictly less
  than half of the originally observed one (both as \<open>calculatePriceDifference\<close> computes
  them), an admitted \<open>executeArbitrage\<close> is aborted before any step runs: it returns a
  failure result that carries the ArbitrageError with code PRICE_MOVED_AGAINST_US, with no
  completed step, no failed step, no transaction, and a plan whose steps are all as
  created; the flag is released.
\<close>

theorem executeArbitrage_price_moved:
  assumes "\<not> isExecuting engine"
    and "getAllQuotes (newDEXManager (avalancheClient (envs 0)) (sonicClient (envs 0)))
           USDC USDT (amount opportunity) None = Inr currentQuotes"
    and "quote_pharaoh currentQuotes \<noteq> None" and "quote_shadow currentQuotes \<noteq> None"
    and "dless (currentPriceDiff currentQuotes)
               (dmul (originalPriceDiff opportunity) (Fin 1 (- 1)))"
  shows "\<exists>r engine'. executeArbitrage envs elapsed engine opportunity = (Inr r, engine')
           \<and> r_error r = Some (ArbitrageError ''Price difference has decreased significantly''
                                  ''PRICE_MOVED_AGAINST_US'')
           \<and> \<not> success r \<and> completedSteps r = [] \<and> failedStep r = None \<and> transactions r = []
           \<and> executionPlan r = createExecutionPlan opportunity
           \<and> \<not> isExecuting engine'"
  using assms
  by (simp add: executeArbitrage_def validateOpportunity_def Let_def bindE_def)

theorem executeArbitrage_price_moved_witness:
  "\<not> isExecuting idleEngine
   \<and> getAllQuotes (newDEXManager (avalancheClient (exampleEnvs 0)) (sonicClient (exampleEnvs 0)))
        USDC USDT (amount onePercentOpportunity) None
       = Inr \<lparr>quote_pharaoh = Some pharaohQuoteOfOneMillion,
              quote_shadow = Some shadowQuoteOfOneMillion\<rparr>
   \<and> dless (calculatePriceDifference 999500 999200 6)
            (dmul (originalPriceDiff onePercentOpportunity) (Fin 1 (- 1)))
   \<and> (\<exists>r engine'. executeArbitrage exampleEnvs 0 idleEngine onePercentOpportunity = (Inr r, engine')
           \<and> r_error r = Some (ArbitrageError ''Price difference has decreased significantly''
                                  ''PRICE_MOVED_AGAINST_US'')
           \<and> \<not> success r \<and> completedSteps r = [] \<and> failedStep r = None \<and> transactions r = []
           \<and> executionPlan r = createExecutionPlan onePercentOpportunity
           \<and> \<not> isExecuting engine')"
proof -
  let ?qs = "\<lparr>quote_pharaoh = Some pharaohQuoteOfOneMillion,
              quote_shadow = Some shadowQuoteOfOneMillion\<rparr>"
  have idle: "\<not> isExecuting idleEngine"
    by (simp add: idleEngine_def)
  have quotes: "getAllQuotes (newDEXManager (avalancheClient (exampleEnvs 0)) (sonicClient (exampleEnvs 0)))
        USDC USDT (amount onePercentOpportunity) None = Inr ?qs"
    by code_simp
  have less: "dless (calculatePriceDifference 999500 999200 6)
            (dmul (originalPriceDiff onePercentOpportunity) (Fin 1 (- 1)))"
    by code_simp
  have cur: "currentPriceDiff ?qs = calculatePriceDifference 999500 999200 6"
    by (simp add: currentPriceDiff_def shadowQuoteOfOneMillion_def pharaohQuoteOfOneMillion_def)
  show ?thesis
    using executeArbitrage_price_moved [where engine = idleEngine and envs = exampleEnvs
        and opportunity = onePercentOpportunity and currentQuotes = "?qs" and elapsed = 0]
      idle quotes less cur
    by simp
qed

text \<open>
  C4 does not hold of the code. The \<open>throw\<close> for a Cancelled status sits inside the
  \<open>try\<close> whose own \<open>catch\<close> only logs a warning and sleeps, so a cancelled order is
  polled on like a pending one: if a later poll reports completion the monitoring resolves,
  and if the order stays cancelled the monitoring fails only when the timeout expires, with
  the timeout error.
\<close>

theorem monitorBridgeTransaction_cancelled_swallowed:
  "monitorBridgeTransaction cancelledThenCompleted ''order-1'' BRIDGE_TIMEOUT = Inr ''completed''
   \<and> monitorBridgeTransaction alwaysCancelled ''order-1'' BRIDGE_TIMEOUT
       = Inl (BridgeError ''DeBridge order monitoring timeout'')
   \<and> pollBody ''order-1'' (OrderStatus ''Cancelled'')
       = Inl (Error ''DeBridge order cancelled: order-1'')"
  by (simp add: monitorBridgeTransaction_def BRIDGE_TIMEOUT_def cancelledThenCompleted_def
        alwaysCancelled_def pollOnce_def pollBody_def pollInterval_def)

text \<open>
  For every stream of polls the monitoring has only two outcomes, completion and the
  timeout error: the error thrown for a cancelled order is never what the caller receives.
\<close>

lemma pollOnce_completed: "pollOnce orderId resp = Some r \<Longrightarrow> r = ''completed''"
  by (auto simp: pollOnce_def pollBody_def
      split: PollResponse.splits sum.splits option.splits if_splits)

lemma monitorLoop_outcomes:
  "monitorLoop polls orderId timeoutMs elapsed i = Inr ''completed''
   \<or> monitorLoop polls orderId timeoutMs elapsed i
       = Inl (BridgeError ''DeBridge order monitoring timeout'')"
proof (induction polls orderId timeoutMs elapsed i rule: monitorLoop.induct)
  case (1 polls orderId timeoutMs elapsed i)
  show ?case
  proof (cases "int elapsed < timeoutMs")
    case False
    then show ?thesis by (subst (1 2) monitorLoop.simps) simp
  next
    case live: True
    show ?thesis
    proof (cases "pollOnce orderId (snd (polls i))")
      case None
      with live "1.IH" show ?thesis by (subst (1 2) monitorLoop.simps) simp
    next
      case (Some r)
      with live pollOnce_completed [OF Some] show ?thesis
        by (subst (1 2) monitorLoop.simps) simp
    qed
  qed
qed

lemma monitorBridgeTransaction_outcomes:
  "monitorBridgeTransaction polls orderId timeoutMs = Inr ''completed''
   \<or> monitorBridgeTransaction polls orderId timeoutMs
       = Inl (BridgeError ''DeBridge order monitoring timeout'')"
  unfolding monitorBridgeTransaction_def by (rule monitorLoop_outcomes)

text \<open>
  C5. For every opportunity the plan built by \<open>createExecutionPlan\<close> has exactly 6
  steps; for direction avalanche-to-sonic the kinds are swap, bridge, wait, swap, bridge,
  wait, for sonic-to-avalanche they are bridge, wait, swap, bridge, wait, swap, and every
  step is created in status pending.
\<close>

theorem createExecutionPlan_steps:
  "length (steps (createExecutionPlan opp)) = 6
   \<and> map step_type (steps (createExecutionPlan opp)) =
       (case direction opp of
          AvalancheToSonic \<Rightarrow> [SwapStep, BridgeStep, WaitStep, SwapStep, BridgeStep, WaitStep]
        | SonicToAvalanche \<Rightarrow> [BridgeStep, WaitStep, SwapStep, BridgeStep, WaitStep, SwapStep])
   \<and> map status (steps (createExecutionPlan opp)) = replicate 6 Pending"
  by (cases "direction opp")
     (simp_all add: createExecutionPlan_def planSteps_def mkStep_def Let_def numeral_eq_Suc)

text \<open>
  C6. For all non-negative integer inputs, \<open>calculateNetProfit\<close> equals
  \<open>max 0 (gross - (gasCosts + bridgeCosts + slippageCosts))\<close> and is therefore never
  negative; for gross 100 and total costs 150 it returns 0, and for gross 150 and total
  costs 100 it returns 50. (The equation holds for negative inputs too, so the theorem
  needs no hypothesis.)
\<close>

theorem calculateNetProfit_max:
  "calculateNetProfit gross gasCosts bridgeCosts slippageCosts
     = max 0 (gross - (gasCosts + bridgeCosts + slippageCosts))
   \<and> 0 \<le> calculateNetProfit gross gasCosts bridgeCosts slippageCosts
   \<and> calculateNetProfit 100 150 0 0 = 0
   \<and> calculateNetProfit 100 50 50 50 = 0
   \<and> calculateNetProfit 150 100 0 0 = 50
   \<and> calculateNetProfit 150 40 35 25 = 50"
  by (simp add: calculateNetProfit_def Let_def max_def)

subsection \<open>Rounding stays between representable bounds\<close>

text \<open>
  The value of \<open>Fin m e\<close> is the real number \<open>m * 2 powi e\<close>. The lemmas below show that
  \<open>dless\<close> is the order of these values and that rounding a positive integer multiple of a
  power of two never leaves an interval whose end points are themselves multiples of the
  spacing in force: the rounded value of \<open>x\<close> with \<open>lo \<le> x \<le> hi\<close> lies between \<open>lo\<close>
  and \<open>hi\<close>.
\<close>

lemma roundHalfEven_le:
  assumes "0 < D" and "N \<le> K * D"
  shows "roundHalfEven N D \<le> K"
proof -
  have split: "N = (N div D) * D + N mod D" by simp
  have r: "0 \<le> N mod D" "N mod D < D" using assms(1) by simp_all
  show ?thesis
  proof (cases "N mod D = 0")
    case True
    then have "(N div D) * D \<le> K * D" using split assms(2) by simp
    then have "N div D \<le> K" using assms(1) by simp
    then show ?thesis using True assms(1) by (simp add: roundHalfEven_def Let_def)
  next
    case False
    then have "(N div D) * D < K * D" using split assms(2) r by linarith
    then have "N div D < K" using assms(1) by simp
    then show ?thesis by (simp add: roundHalfEven_def Let_def)
  qed
qed

lemma roundHalfEven_ge:
  assumes "0 < D" and "K * D \<le> N"
  shows "K \<le> roundHalfEven N D"
proof -
  have "(K * D) div D \<le> N div D"
    using assms by (intro zdiv_mono1) auto
  then have "K \<le> N div D" using assms(1) by simp
  then show ?thesis by (simp add: roundHalfEven_def Let_def)
qed

lemma ilog2_one:
  assumes "0 < n"
  shows "ilog2 n 1 = bitlen n - 1"
proof -
  have b: "2 ^ nat (bitlen n - 1) \<le> n" using bitlen_bounds [OF assms] by simp
  have pos: "1 \<le> bitlen n" using assms by (simp add: bitlen_alt_def)
  have one: "bitlen 1 = 1" by (simp add: bitlen_alt_def)
  show ?thesis using b pos one by (simp add: ilog2_def shl_def Let_def)
qed

lemma shl_real_nonneg: "0 \<le> k \<Longrightarrow> real_of_int (shl x k) = of_int x * 2 powi k"
  by (simp add: shl_def power_int_def)

lemma shl_nonpos: "k \<le> 0 \<Longrightarrow> shl x k = x"
  by (simp add: shl_def)

lemma dless_Fin:
  "dless (Fin a ea) (Fin b eb) \<longleftrightarrow> of_int a * 2 powi ea < (of_int b * 2 powi eb :: real)"
proof -
  define e where "e = min ea eb"
  have ge: "0 \<le> ea - e" "0 \<le> eb - e" by (simp_all add: e_def)
  have "dless (Fin a ea) (Fin b eb) \<longleftrightarrow> shl a (ea - e) < shl b (eb - e)"
    by (simp add: dless_def e_def Let_def)
  also have "\<dots> \<longleftrightarrow> real_of_int (shl a (ea - e)) < real_of_int (shl b (eb - e))"
    by simp
  also have "\<dots> \<longleftrightarrow> of_int a * 2 powi (ea - e) < (of_int b * 2 powi (eb - e) :: real)"
    using ge by (simp add: shl_real_nonneg)
  also have "\<dots> \<longleftrightarrow> of_int a * 2 powi (ea - e) * 2 powi e < (of_int b * 2 powi (eb - e) * 2 powi e :: real)"
    by simp
  also have "\<dots> \<longleftrightarrow> of_int a * 2 powi ea < (of_int b * 2 powi eb :: real)"
    by (simp add: mult.assoc flip: power_int_add)
  finally show ?thesis .
qed


lemma bitlen_powi_le:
  assumes "0 < n"
  shows "(2::real) powi (bitlen n - 1) \<le> of_int n"
proof -
  have "2 ^ nat (bitlen n - 1) \<le> n" using bitlen_bounds [OF assms] by simp
  then have "real_of_int (2 ^ nat (bitlen n - 1)) \<le> of_int n" by linarith
  moreover have "1 \<le> bitlen n" using assms by (simp add: bitlen_alt_def)
  ultimately show ?thesis by (simp add: power_int_def)
qed

lemma roundQ_between:
  assumes n: "0 < n"
    and lo: "of_int a * 2 powi \<alpha> \<le> of_int n * (2::real) powi E"
    and hi: "of_int n * (2::real) powi E \<le> of_int b * 2 powi \<beta>"
    and top: "of_int b * (2::real) powi \<beta> < 2 powi H"
    and ex: "H - 53 \<le> \<alpha>" "H - 53 \<le> \<beta>" "- 1074 \<le> \<alpha>" "- 1074 \<le> \<beta>" "H \<le> 1023"
  shows "\<exists>mant t. roundQ n 1 E = Fin mant t
           \<and> of_int a * 2 powi \<alpha> \<le> of_int mant * (2::real) powi t
           \<and> of_int mant * (2::real) powi t \<le> of_int b * 2 powi \<beta>"
proof -
  define lg where "lg = bitlen n - 1"
  define t where "t = max (- 1074) (lg + E - 52)"
  define N where "N = shl n (E - t)"
  define D where "D = shl 1 (t - E)"
  define mant where "mant = roundHalfEven N D"
  have "(2::real) powi (lg + E) = 2 powi lg * 2 powi E"
    by (simp add: power_int_add)
  also have "\<dots> \<le> of_int n * 2 powi E"
    using bitlen_powi_le [OF n] by (simp add: lg_def)
  also have "\<dots> < 2 powi H" using hi top by linarith
  finally have "lg + E < H"
    by (smt (verit) power_int_increasing)
  then have t_le: "t \<le> \<alpha>" "t \<le> \<beta>" "t \<le> 970"
    using ex by (simp_all add: t_def)
  have Dpos: "0 < D" by (simp add: D_def shl_def)
  have ratio: "real_of_int N = of_int n * 2 powi (E - t) * real_of_int D"
  proof (cases "t \<le> E")
    case True
    then show ?thesis by (simp add: N_def D_def shl_real_nonneg shl_nonpos)
  next
    case False
    then have "real_of_int D = 2 powi (t - E)" "N = n"
      by (simp_all add: N_def D_def shl_real_nonneg shl_nonpos)
    moreover have "(2::real) powi (E - t) * 2 powi (t - E) = 1"
      by (simp flip: power_int_add)
    ultimately show ?thesis by (simp add: mult.assoc)
  qed
  define Kb where "Kb = b * 2 ^ nat (\<beta> - t)"
  define Ka where "Ka = a * 2 ^ nat (\<alpha> - t)"
  have Kb: "real_of_int Kb = of_int b * 2 powi (\<beta> - t)"
    using t_le by (simp add: Kb_def power_int_def)
  have Ka: "real_of_int Ka = of_int a * 2 powi (\<alpha> - t)"
    using t_le by (simp add: Ka_def power_int_def)
  have scale: "x * (2::real) powi (k - t) = x * 2 powi k * 2 powi (- t)" for x k
    by (simp add: mult.assoc flip: power_int_add)
  have "of_int n * (2::real) powi (E - t) \<le> of_int b * 2 powi (\<beta> - t)"
    unfolding scale using hi by (intro mult_right_mono) auto
  then have "real_of_int N \<le> real_of_int Kb * real_of_int D"
    unfolding ratio Kb using Dpos by (intro mult_right_mono) auto
  then have "N \<le> Kb * D" by (metis of_int_le_iff of_int_mult)
  then have up: "mant \<le> Kb" unfolding mant_def by (rule roundHalfEven_le [OF Dpos])
  have "of_int a * (2::real) powi (\<alpha> - t) \<le> of_int n * 2 powi (E - t)"
    unfolding scale using lo by (intro mult_right_mono) auto
  then have "real_of_int Ka * real_of_int D \<le> real_of_int N"
    unfolding ratio Ka using Dpos by (intro mult_right_mono) auto
  then have "Ka * D \<le> N" by (metis of_int_le_iff of_int_mult)
  then have down: "Ka \<le> mant" unfolding mant_def by (rule roundHalfEven_ge [OF Dpos])
  have unscale: "x * (2::real) powi (k - t) * 2 powi t = x * 2 powi k" for x k
    by (simp add: mult.assoc flip: power_int_add)
  have "real_of_int mant * 2 powi t \<le> real_of_int Kb * 2 powi t"
    using up by (intro mult_right_mono) auto
  then have r1: "real_of_int mant * 2 powi t \<le> of_int b * 2 powi \<beta>"
    by (simp add: Kb unscale)
  have "real_of_int Ka * 2 powi t \<le> real_of_int mant * 2 powi t"
    using down by (intro mult_right_mono) auto
  then have r2: "of_int a * 2 powi \<alpha> \<le> real_of_int mant * 2 powi t"
    by (simp add: Ka unscale)
  have tq: "max (- 1074) (ilog2 n 1 + E - 52) = t"
    using n by (simp add: t_def lg_def ilog2_one)
  have "roundQ n 1 E = Fin mant t"
    unfolding roundQ_def Let_def tq using n t_le(3)
    by (simp add: mant_def N_def D_def)
  then show ?thesis using r1 r2 by blast
qed


lemma Number_constants:
  "Number 1 = Fin 4503599627370496 (- 52)"
  "Number 60000 = Fin 8246337208320000 (- 37)"
  "Number 120000 = Fin 8246337208320000 (- 36)"
  "Number 180000 = Fin 6184752906240000 (- 35)"
  by code_simp+

lemma dyadic_constants:
  "(4503599627370496::real) * 2 powi (- 52) = 1"
  "(8246337208320000::real) * 2 powi (- 37) = 60000"
  "(8246337208320000::real) * 2 powi (- 36) = 120000"
  "(6184752906240000::real) * 2 powi (- 35) = 180000"
  by (simp_all add: power_int_minus)

lemma bridgeTime_bounds:
  assumes m0: "0 \<le> m" and lt1: "dless (Fin m e) (Number 1)"
  shows "\<exists>m' e'. dadd (Number 60000) (dmul (Fin m e) (Number 120000)) = Fin m' e'
           \<and> \<not> dless (Fin m' e') (Number 60000) \<and> \<not> dless (Number 180000) (Fin m' e')"
proof -
  define r where "r = real_of_int m * 2 powi e"
  have r0: "0 \<le> r" using m0 by (simp add: r_def)
  have r1: "r < 1" using lt1 by (simp add: r_def Number_constants dless_Fin dyadic_constants)
  have "\<exists>mp tp. dmul (Fin m e) (Number 120000) = Fin mp tp
          \<and> 0 \<le> real_of_int mp * 2 powi tp \<and> real_of_int mp * 2 powi tp \<le> 120000"
  proof (cases "m = 0")
    case True
    then have "dmul (Fin m e) (Number 120000) = Fin 0 0"
      by (simp add: Number_constants dmul_def fl_def roundQ_def)
    then show ?thesis by simp
  next
    case False
    define n where "n = m * 8246337208320000"
    have n: "0 < n" using False m0 by (simp add: n_def)
    have "real_of_int n * 2 powi (e - 36) = r * (8246337208320000 * 2 powi (- 36))"
      by (simp add: n_def r_def power_int_diff power_int_minus field_simps)
    then have v: "real_of_int n * 2 powi (e - 36) = r * 120000"
      by (simp only: dyadic_constants)
    have "\<exists>mant t. roundQ n 1 (e - 36) = Fin mant t
           \<and> of_int 0 * 2 powi 0 \<le> of_int mant * (2::real) powi t
           \<and> of_int mant * (2::real) powi t \<le> of_int 1875 * 2 powi 6"
      using r0 r1 by (intro roundQ_between [where H = 17] n) (simp_all add: v)
    moreover have "dmul (Fin m e) (Number 120000) = roundQ n 1 (e - 36)"
      using n by (simp add: Number_constants dmul_def fl_def n_def)
    ultimately show ?thesis by auto
  qed
  then obtain mp tp where P: "dmul (Fin m e) (Number 120000) = Fin mp tp"
    and p0: "0 \<le> real_of_int mp * 2 powi tp" and p1: "real_of_int mp * 2 powi tp \<le> 120000"
    by blast
  have mp0: "0 \<le> mp"
  proof (rule ccontr)
    assume "\<not> 0 \<le> mp"
    then have "real_of_int mp < 0" by simp
    then have "real_of_int mp * 2 powi tp < 0" by (simp add: mult_neg_pos)
    with p0 show False by simp
  qed
  define e0 where "e0 = min (- 37) tp"
  define n' where "n' = shl 8246337208320000 (- 37 - e0) + shl mp (tp - e0)"
  have ge: "0 \<le> - 37 - e0" "0 \<le> tp - e0" by (simp_all add: e0_def)
  have n': "0 < n'"
    using mp0 by (simp add: n'_def shl_def add_pos_nonneg)
  have "real_of_int n' * 2 powi e0
          = 8246337208320000 * (2 powi (- 37 - e0) * 2 powi e0)
            + real_of_int mp * (2 powi (tp - e0) * 2 powi e0)"
    using ge by (simp add: n'_def shl_real_nonneg algebra_simps)
  also have "\<dots> = 8246337208320000 * 2 powi (- 37) + real_of_int mp * 2 powi tp"
    by (simp flip: power_int_add)
  finally have v': "real_of_int n' * 2 powi e0 = 60000 + real_of_int mp * 2 powi tp"
    by (simp only: dyadic_constants)
  have "\<exists>mant t. roundQ n' 1 e0 = Fin mant t
         \<and> of_int 1875 * 2 powi 5 \<le> of_int mant * (2::real) powi t
         \<and> of_int mant * (2::real) powi t \<le> of_int 5625 * 2 powi 5"
    using p0 p1 by (intro roundQ_between [where H = 18] n') (simp_all add: v')
  then obtain m' e' where R: "roundQ n' 1 e0 = Fin m' e'"
    and lo: "60000 \<le> real_of_int m' * 2 powi e'" and hi: "real_of_int m' * 2 powi e' \<le> 180000"
    by auto
  have "dadd (Number 60000) (dmul (Fin m e) (Number 120000)) = roundQ n' 1 e0"
    using n' P by (simp add: Number_constants dadd_def fl_def Let_def n'_def e0_def)
  then have "dadd (Number 60000) (dmul (Fin m e) (Number 120000)) = Fin m' e'"
    by (simp add: R)
  moreover have "\<not> dless (Fin m' e') (Number 60000)"
    using lo by (simp add: Number_constants dless_Fin dyadic_constants)
  moreover have "\<not> dless (Number 180000) (Fin m' e')"
    using hi by (simp add: Number_constants dless_Fin dyadic_constants)
  ultimately show ?thesis by blast
qed

text \<open>
  C7. For every token and amount the simulation bridge reports
  \<open>estimatedOutput = amount - amount / 1000\<close> in bigint arithmetic (for a non-negative
  amount the truncating quotient is \<open>amount div 1000\<close>). The monitoring promise it returns
  resolves with status completed, after the one timer whose delay is
  \<open>60000 + r * 120000\<close> for the draw \<open>r\<close> of \<open>Math.random()\<close>; for every draw, a number
  with \<open>0 \<le> r < 1\<close>, that delay, as computed in double arithmetic, is a finite number
  from 60000 to 180000 milliseconds.
\<close>

theorem executeSimulationBridge_output:
  assumes "mathRandom env = Fin m e" and "0 \<le> m" and "dless (Fin m e) (Number 1)"
  shows "estimatedOutput (executeSimulationBridge env token fromChainId toChainId amt)
           = amt - tdiv amt 1000
       \<and> (0 \<le> amt \<longrightarrow>
            estimatedOutput (executeSimulationBridge env token fromChainId toChainId amt)
              = amt - amt div 1000)
       \<and> settled (monitoringPromise
                    (executeSimulationBridge env token fromChainId toChainId amt))
           = Inr ''completed''
       \<and> timerDelay (monitoringPromise
                       (executeSimulationBridge env token fromChainId toChainId amt))
           = Some (dadd (Number 60000) (dmul (Fin m e) (Number 120000)))
       \<and> (\<exists>m' e'.
             timerDelay (monitoringPromise
                           (executeSimulationBridge env token fromChainId toChainId amt))
               = Some (Fin m' e')
           \<and> \<not> dless (Fin m' e') (Number 60000)
           \<and> \<not> dless (Number 180000) (Fin m' e'))"
proof -
  have "0 \<le> amt \<Longrightarrow> tdiv amt 1000 = amt div 1000"
    by (cases "amt = 0") (simp_all add: tdiv_def)
  moreover have "\<exists>m' e'. dadd (Number 60000) (dmul (Fin m e) (Number 120000)) = Fin m' e'
           \<and> \<not> dless (Fin m' e') (Number 60000) \<and> \<not> dless (Number 180000) (Fin m' e')"
    using assms(2,3) by (rule bridgeTime_bounds)
  ultimately show ?thesis
    using assms(1) by (simp add: executeSimulationBridge_def simulateBridgeMonitoring_def Let_def)
qed

text \<open>
  Three draws: 0, one half, and the largest number below 1. The delays are 60000, 120000
  and 180000 milliseconds, so the delay follows the draw and both ends of the range occur.
\<close>

theorem executeSimulationBridge_output_witness:
  "dless (Fin 0 0) (Number 1) \<and> dless (Fin 1 (- 1)) (Number 1)
   \<and> dless (Fin (2 ^ 53 - 1) (- 53)) (Number 1)
   \<and> estimatedOutput (executeSimulationBridge exampleEnv USDC 43114 146 1000000) = 999000
   \<and> timerDelay (monitoringPromise
         (executeSimulationBridge (drawEnv (Fin 0 0)) USDC 43114 146 1000000))
       = Some (Number 60000)
   \<and> timerDelay (monitoringPromise
         (executeSimulationBridge exampleEnv USDC 43114 146 1000000))
       = Some (Number 120000)
   \<and> timerDelay (monitoringPromise
         (executeSimulationBridge (drawEnv (Fin (2 ^ 53 - 1) (- 53))) USDC 43114 146 1000000))
       = Some (Number 180000)
   \<and> settled (monitoringPromise
         (executeSimulationBridge exampleEnv USDC 43114 146 1000000))
       = Inr ''completed''
   \<and> Number 60000 = Fin 8246337208320000 (- 37)
   \<and> Number 120000 = Fin 8246337208320000 (- 36)
   \<and> Number 180000 = Fin 6184752906240000 (- 35)"
proof -
  have r0: "mathRandom (drawEnv (Fin 0 0)) = Fin 0 0"
    and r1: "mathRandom exampleEnv = Fin 1 (- 1)"
    and r2: "mathRandom (drawEnv (Fin (2 ^ 53 - 1) (- 53))) = Fin (2 ^ 53 - 1) (- 53)"
    by (simp_all add: drawEnv_def exampleEnv_def)
  have lt0: "dless (Fin 0 0) (Number 1)"
    and lt1: "dless (Fin 1 (- 1)) (Number 1)"
    and lt2: "dless (Fin (2 ^ 53 - 1) (- 53)) (Number 1)"
    by code_simp+
  have d0: "dadd (Number 60000) (dmul (Fin 0 0) (Number 120000)) = Number 60000"
    and d1: "dadd (Number 60000) (dmul (Fin 1 (- 1)) (Number 120000)) = Number 120000"
    and d2: "dadd (Number 60000) (dmul (Fin (2 ^ 53 - 1) (- 53)) (Number 120000))
               = Number 180000"
    by code_simp+
  have out: "(1000000::int) - tdiv 1000000 1000 = 999000"
    by (simp add: tdiv_def)
  have nonneg: "(0::int) \<le> 0" "(0::int) \<le> 1" "(0::int) \<le> 2 ^ 53 - 1"
    by simp_all
  note w0 = executeSimulationBridge_output [OF r0 nonneg(1) lt0, of USDC 43114 146 1000000]
  note w1 = executeSimulationBridge_output [OF r1 nonneg(2) lt1, of USDC 43114 146 1000000]
  note w2 = executeSimulationBridge_output [OF r2 nonneg(3) lt2, of USDC 43114 146 1000000]
  have t0: "timerDelay (monitoringPromise
         (executeSimulationBridge (drawEnv (Fin 0 0)) USDC 43114 146 1000000))
       = Some (Number 60000)"
    using w0 by (simp only: d0)
  have t1: "timerDelay (monitoringPromise
         (executeSimulationBridge exampleEnv USDC 43114 146 1000000))
       = Some (Number 120000)"
    using w1 by (simp only: d1)
  have t2: "timerDelay (monitoringPromise
         (executeSimulationBridge (drawEnv (Fin (2 ^ 53 - 1) (- 53))) USDC 43114 146 1000000))
       = Some (Number 180000)"
    using w2 by (simp only: d2)
  have e: "estimatedOutput (executeSimulationBridge exampleEnv USDC 43114 146 1000000) = 999000"
    using w1 by (simp only: out)
  have s: "settled (monitoringPromise
         (executeSimulationBridge exampleEnv USDC 43114 146 1000000)) = Inr ''completed''"
    using w1 by blast
  show ?thesis
    using lt0 lt1 lt2 e t0 t1 t2 s Number_constants by blast
qed

text \<open>
  C8. With both networks targeted, if one venue's quote call throws and the other succeeds,
  \<open>getAllQuotes\<close> does not throw and returns the partial map holding exactly the
  successful venue's quote.
\<close>

theorem getAllQuotes_partial:
  assumes "networks = None \<or> (\<exists>ns. networks = Some ns \<and> Avalanche \<in> set ns \<and> Sonic \<in> set ns)"
  shows "(svc_getSwapQuoteExactIn (pharaoh mgr) tokenIn tokenOut amountIn = Inl e \<and>
          svc_getSwapQuoteExactIn (shadow mgr) tokenIn tokenOut amountIn = Inr q \<longrightarrow>
            getAllQuotes mgr tokenIn tokenOut amountIn networks
              = Inr \<lparr>quote_pharaoh = None, quote_shadow = Some q\<rparr>)
       \<and> (svc_getSwapQuoteExactIn (pharaoh mgr) tokenIn tokenOut amountIn = Inr q \<and>
          svc_getSwapQuoteExactIn (shadow mgr) tokenIn tokenOut amountIn = Inl e \<longrightarrow>
            getAllQuotes mgr tokenIn tokenOut amountIn networks
              = Inr \<lparr>quote_pharaoh = Some q, quote_shadow = None\<rparr>)"
  using assms by (auto simp: getAllQuotes_def tryQuote_def Let_def)


theorem getAllQuotes_partial_witness:
  "svc_getSwapQuoteExactIn (pharaoh oneVenueDownManager) USDC USDT 1000000
     = Inl (SwapError ''Failed to get Pharaoh swap quote'')
   \<and> svc_getSwapQuoteExactIn (shadow oneVenueDownManager) USDC USDT 1000000
     = Inr shadowQuoteOfOneMillion
   \<and> getAllQuotes oneVenueDownManager USDC USDT 1000000 None
     = Inr \<lparr>quote_pharaoh = None, quote_shadow = Some shadowQuoteOfOneMillion\<rparr>"
proof -
  have p: "svc_getSwapQuoteExactIn (pharaoh oneVenueDownManager) USDC USDT 1000000
     = Inl (SwapError ''Failed to get Pharaoh swap quote'')"
    by (simp add: oneVenueDownManager_def failingService_def)
  have s: "svc_getSwapQuoteExactIn (shadow oneVenueDownManager) USDC USDT 1000000
     = Inr shadowQuoteOfOneMillion"
    by code_simp
  show ?thesis
    using getAllQuotes_partial [of None oneVenueDownManager USDC USDT 1000000
        "SwapError ''Failed to get Pharaoh swap quote''" shadowQuoteOfOneMillion] p s
    by simp
qed

text \<open>
  C9. For every \<open>sqrtPriceX96\<close> the conversion returns a positive price (it is total: every
  throw inside it is caught). When the primary result lies outside the band from 500000 to
  2000000 the alternative computation is tried and its result returned if positive; a
  primary result inside the band is returned as it is; and when the primary and the
  alternative computation both give zero the result is exactly 1000000.
\<close>

theorem sqrtPriceX96ToPrice_positive:
  "0 < sqrtPriceX96ToPrice s d0 d1
   \<and> (s \<noteq> 0 \<and> primaryV3Price s d0 d1 = Inr p \<and> (p < 500000 \<or> p > 2000000)
        \<and> 0 < alternativeV3PriceCalculation s
      \<longrightarrow> sqrtPriceX96ToPrice s d0 d1 = alternativeV3PriceCalculation s)
   \<and> (s \<noteq> 0 \<and> primaryV3Price s d0 d1 = Inr p \<and> 500000 \<le> p \<and> p \<le> 2000000
      \<longrightarrow> sqrtPriceX96ToPrice s d0 d1 = p)
   \<and> (primaryV3Price s d0 d1 = Inr 0 \<and> alternativeV3PriceCalculation s = 0
      \<longrightarrow> sqrtPriceX96ToPrice s d0 d1 = 1000000)"
  by (auto simp: sqrtPriceX96ToPrice_def bindE_def Let_def split: sum.splits)

theorem sqrtPriceX96ToPrice_positive_witness:
  "0 < sqrtPriceX96ToPrice (2 ^ 95) 6 6
   \<and> primaryV3Price (2 ^ 95) 6 6 = Inr 250000 \<and> alternativeV3PriceCalculation (2 ^ 95) = 4000000
   \<and> sqrtPriceX96ToPrice (2 ^ 95) 6 6 = 4000000
   \<and> primaryV3Price 79230000000000000000000000000 6 6 = Inr 1000046
   \<and> sqrtPriceX96ToPrice 79230000000000000000000000000 6 6 = 1000046
   \<and> primaryV3Price 0 6 6 = Inr 0 \<and> alternativeV3PriceCalculation 0 = 0
   \<and> sqrtPriceX96ToPrice 0 6 6 = 1000000"
proof -
  have a: "primaryV3Price (2 ^ 95) 6 6 = Inr 250000" by code_simp
  have b: "alternativeV3PriceCalculation (2 ^ 95) = 4000000" by code_simp
  have c: "primaryV3Price 79230000000000000000000000000 6 6 = Inr 1000046" by code_simp
  have d: "primaryV3Price 0 6 6 = Inr 0" by code_simp
  have e: "alternativeV3PriceCalculation 0 = 0" by code_simp
  show ?thesis
    using sqrtPriceX96ToPrice_positive [of "2 ^ 95" 6 6 250000]
      sqrtPriceX96ToPrice_positive [of 79230000000000000000000000000 6 6 1000046]
      sqrtPriceX96ToPrice_positive [of 0 6 6 0] a b c d e
    by simp
qed

text \<open>
  C10. Whenever a swap execution on either venue succeeds, the \<open>amountOut\<close> it reports is
  the venue's quote \<open>BigInt(Math.floor(Number(amountIn) * (1 - feeRate)))\<close>, with fee rate
  0.0005 on Pharaoh and 0.0008 on Shadow, computed before the transaction is submitted; it
  is the same on every chain client, whatever the receipt says was paid out. The hash is
  the one the submission returned, and only \<open>actualGasUsed\<close> comes from the receipt.
\<close>

theorem executeSwapExactIn_amountOut:
  assumes "executeSwapExactIn dex client tokenIn tokenOut amountIn = Inr r"
  shows "toBigInt (dfloor (dmul (Number amountIn)
             (dsub (Number 1) (decimalLiteral (case dex of Pharaoh \<Rightarrow> 5 | Shadow \<Rightarrow> 8) 4))))
           = Inr (se_amountOut r)
         \<and> (\<exists>swapData receipt.
               signSwap client tokenIn tokenOut amountIn = Inr swapData
             \<and> sendSwap client swapData = Inr (se_txHash r)
             \<and> waitForTransactionReceipt client (se_txHash r) = Inr receipt
             \<and> se_actualGasUsed r = gasUsed receipt)
         \<and> (\<forall>client' r'. executeSwapExactIn dex client' tokenIn tokenOut amountIn = Inr r'
               \<longrightarrow> se_amountOut r' = se_amountOut r)"
  using assms
  by (cases dex)
     (auto simp: executeSwapExactIn_def getSwapQuoteExactIn_def quoteAmountOut_def feeRate_def
        bindE_def split: sum.splits if_splits)

theorem executeSwapExactIn_amountOut_witness:
  "executeSwapExactIn Shadow exampleClient USDC USDT 1000000
     = Inr \<lparr>se_txHash = ''0xswap'', se_amountOut = 999200, se_actualGasUsed = 81234\<rparr>
   \<and> toBigInt (dfloor (dmul (Number 1000000) (dsub (Number 1) (decimalLiteral 8 4)))) = Inr 999200
   \<and> waitForTransactionReceipt exampleClient ''0xswap'' = Inr \<lparr>gasUsed = 81234, paidOut = 999137\<rparr>"
proof -
  have run: "executeSwapExactIn Shadow exampleClient USDC USDT 1000000
     = Inr \<lparr>se_txHash = ''0xswap'', se_amountOut = 999200, se_actualGasUsed = 81234\<rparr>"
    by code_simp
  have rc: "waitForTransactionReceipt exampleClient ''0xswap'' = Inr \<lparr>gasUsed = 81234, paidOut = 999137\<rparr>"
    by (simp add: exampleClient_def)
  show ?thesis
    using executeSwapExactIn_amountOut [OF run] run rc by simp
qed

end
